theory Spec2Isabelle
  imports Complex_Main "HOL-Library.AList"
begin

section \<open>Data model of octant.core.TrackRun\<close>

text \<open>
  One row of \<open>TrackRun.data\<close>: the two levels of the MultiIndex (\<open>track_idx\<close>,
  \<open>row_idx\<close>) and the columns the matching and density code reads (\<open>time\<close>, \<open>lon\<close>,
  \<open>lat\<close>). Timestamps are integers (numpy datetime64 ticks); floats are modelled by
  exact reals.
\<close>

record point_rec =
  track_idx :: int
  row_idx :: int
  time :: int
  lon :: real
  lat :: real

text \<open>
  \<open>TrackRun.cats\<close>: a boolean DataFrame indexed by track id, one column per category
  label. A row is the track id with the flags of the columns, in column order.
\<close>

record cats_tbl =
  columns :: "string list"
  cat_rows :: "(int \<times> bool list) list"

text \<open>
  \<open>TrackRun.conf\<close> (a TrackSettings object): its \<open>_fields\<close> in order, each with the
  value of the attribute of that name (\<open>None\<close> when it was reset).
\<close>

type_synonym conf = "(string \<times> string option) list"

record trackrun =
  data :: "point_rec list"
  cats :: "cats_tbl option"
  is_categorised :: bool
  is_cat_inclusive :: bool
  tstep_h :: "real option"
  conf :: "conf option"
  sources :: "string list"

datatype error =
    ArgumentError string
  | ConcatenationError string
  | GridError string
  | SelectError string
  | NotCategorisedError
  | AttributeError
  | KeyError
  | IndexError
  | TypeError
  | ValueError
  | UnboundLocalError

text \<open>The \<open>subset\<close> argument when it is not \<open>None\<close>: a string, a list of labels or \<open>slice(None)\<close>.\<close>

datatype subset_arg = SStr string | SList "string list" | SSliceAll

text \<open>\<open>TrackRun()\<close> with no directory: lines 75-85; \<open>tstep_h\<close> is not set.\<close>

definition new_trackrun :: trackrun where
  "new_trackrun = \<lparr> data = [], cats = None, is_categorised = False, is_cat_inclusive = False,
     tstep_h = None, conf = None, sources = [] \<rparr>"

text \<open>\<open>__len__\<close>: the number of distinct values of index level 0.\<close>

definition nunique :: "point_rec list \<Rightarrow> nat" where
  "nunique rows = length (remdups (map track_idx rows))"

definition len_tr :: "trackrun \<Rightarrow> nat" where
  "len_tr tr = nunique (data tr)"

definition cat_labels :: "trackrun \<Rightarrow> string list" where
  "cat_labels tr = (case cats tr of None \<Rightarrow> [] | Some c \<Rightarrow> columns c)"

fun join :: "string \<Rightarrow> string list \<Rightarrow> string" where
  "join sep [] = []"
| "join sep [x] = x"
| "join sep (x # y # ys) = x @ sep @ join sep (y # ys)"

subsection \<open>What the module imports\<close>

text \<open>
  What \<open>core.py\<close> imports from modules that are not part of the sources at hand, taken as
  parameters. From \<open>octant.utils\<close>: the compiled \<open>great_circle\<close> (arguments
  \<open>lon1 lon2 lat1 lat2 r_planet\<close>) and \<open>distance_metric\<close> (the two tracks, whose
  \<open>coord_view\<close> it reads, then \<open>beta\<close> and \<open>r_planet\<close>); the density kernels, which take
  the two axes of the mesh and the rows of the selected tracks; \<open>cell_bounds\<close>,
  \<open>cell_centres\<close> and \<open>grid_cell_areas\<close>. From \<open>octant.params\<close>: \<open>HOUR\<close> (ticks of the
  timestamps in one hour), \<open>KM2M\<close> and \<open>FILLVAL\<close>. Further \<open>interp_onto\<close>, the pandas
  pipeline of lines 745-755 (concatenate, sort by time, interpolate by values, read at the
  timestamps of the second track, drop the rows without a longitude), which gives the
  (lon, lat) pairs of \<open>new_df1\<close>; \<open>genesis_rows\<close> and \<open>lysis_rows\<close>, the pandas
  expressions of lines 935-941 with the month and the day to exclude; and \<open>area_units\<close>,
  the formatted string of line 915.
\<close>

record ext =
  great_circle :: "real \<Rightarrow> real \<Rightarrow> real \<Rightarrow> real \<Rightarrow> real \<Rightarrow> real"
  distance_metric :: "point_rec list \<Rightarrow> point_rec list \<Rightarrow> real \<Rightarrow> real \<Rightarrow> real"
  interp_onto :: "point_rec list \<Rightarrow> point_rec list \<Rightarrow> (real \<times> real) list"
  HOUR :: int
  KM2M :: real
  FILLVAL :: real
  cell_bounds :: "real list \<Rightarrow> real list"
  cell_centres :: "real list \<Rightarrow> real list"
  grid_cell_areas :: "real list \<Rightarrow> real list \<Rightarrow> real \<Rightarrow> real list list"
  point_density_cell :: "real list \<Rightarrow> real list \<Rightarrow> point_rec list \<Rightarrow> real list list"
  track_density_cell :: "real list \<Rightarrow> real list \<Rightarrow> point_rec list \<Rightarrow> real list list"
  point_density_rad :: "real list \<Rightarrow> real list \<Rightarrow> point_rec list \<Rightarrow> real \<Rightarrow> real \<Rightarrow> real list list"
  track_density_rad :: "real list \<Rightarrow> real list \<Rightarrow> point_rec list \<Rightarrow> real \<Rightarrow> real \<Rightarrow> real list list"
  genesis_rows :: "point_rec list \<Rightarrow> int \<times> int \<Rightarrow> error + point_rec list"
  lysis_rows :: "point_rec list \<Rightarrow> int \<times> int \<Rightarrow> error + point_rec list"
  area_units :: "real \<Rightarrow> string"

subsection \<open>Subset selection: \<open>__getitem__\<close>\<close>

text \<open>\<open>self.cats[label]\<close> for a label among the columns: the flags of that column, row by row.\<close>

fun col_index :: "string \<Rightarrow> string list \<Rightarrow> nat" where
  "col_index l [] = 0"
| "col_index l (c # cs) = (if c = l then 0 else Suc (col_index l cs))"

definition flag_at :: "bool list \<Rightarrow> nat \<Rightarrow> bool" where
  "flag_at fs i = (i < length fs \<and> fs ! i)"

definition label_flag :: "cats_tbl \<Rightarrow> string \<Rightarrow> int \<times> bool list \<Rightarrow> bool" where
  "label_flag c l x = flag_at (snd x) (col_index l (columns c))"

definition cat_column :: "cats_tbl \<Rightarrow> string \<Rightarrow> bool list" where
  "cat_column c l = map (label_flag c l) (cat_rows c)"

text \<open>
  The loop of lines 133-139. \<open>selected\<close> starts as the Python value \<open>True\<close> (here
  \<open>None\<close>) and becomes a boolean column at the first label.
\<close>

fun select_loop :: "cats_tbl \<Rightarrow> string list \<Rightarrow> bool list option \<Rightarrow> error + bool list option" where
  "select_loop c [] selected = Inr selected"
| "select_loop c (label # rest) selected =
     (if label \<notin> set (columns c)
      then Inl (SelectError ([CHR 0x27] @ label @ [CHR 0x27] @ '' is not among categories: ''
                             @ join '', '' (columns c)))
      else select_loop c rest
             (Some (case selected of None \<Rightarrow> cat_column c label
                    | Some sel \<Rightarrow> map (\<lambda>(a, b). a \<and> b) (zip sel (cat_column c label)))))"

text \<open>\<open>self.cats[selected].index\<close>: the track ids of the rows whose mask entry is true.\<close>

definition masked_index :: "cats_tbl \<Rightarrow> bool list \<Rightarrow> int list" where
  "masked_index c sel = map (fst \<circ> fst) (filter snd (zip (cat_rows c) sel))"

text \<open>\<open>self.data.loc[idx, :]\<close>: the rows of the data whose track id is one of the labels.\<close>

definition loc_rows :: "point_rec list \<Rightarrow> int list \<Rightarrow> point_rec list" where
  "loc_rows rows idx = filter (\<lambda>r. track_idx r \<in> set idx) rows"

definition getitem :: "trackrun \<Rightarrow> subset_arg option \<Rightarrow> error + point_rec list" where
  "getitem tr sb =
     (if sb = Some SSliceAll \<or> sb = None \<or> sb = Some (SStr ''all'') \<or> len_tr tr = 0
      then Inr (data tr)
      else if is_categorised tr then
        (let subsets = (case sb of Some (SStr s) \<Rightarrow> [s] | Some (SList ls) \<Rightarrow> ls | _ \<Rightarrow> [])
         in case cats tr of
              None \<Rightarrow> Inl (if subsets = [] then TypeError else AttributeError)
            | Some c \<Rightarrow>
               (case select_loop c subsets None of
                  Inl e \<Rightarrow> Inl e
                | Inr None \<Rightarrow> Inl KeyError
                | Inr (Some sel) \<Rightarrow> Inr (loc_rows (data tr) (masked_index c sel))))
      else Inl NotCategorisedError)"

text \<open>\<open>size(subset=None)\<close>.\<close>

definition size_tr :: "trackrun \<Rightarrow> nat" where
  "size_tr tr = (case getitem tr None of Inr rows \<Rightarrow> nunique rows | Inl _ \<Rightarrow> 0)"

subsection \<open>Concatenation: \<open>extend\<close> and \<open>__add__\<close>\<close>

text \<open>
  Lines 330-331: \<open>idx.ne(idx.shift()).cumsum() - 1\<close>. The shifted series starts with a
  missing value, which differs from every id, so the first flag is set.
\<close>

definition ne_shift :: "int list \<Rightarrow> bool list" where
  "ne_shift xs = (case xs of [] \<Rightarrow> [] | x # rest \<Rightarrow> True # map (\<lambda>(a, b). a \<noteq> b) (zip rest xs))"

fun cumsum_from :: "int \<Rightarrow> int list \<Rightarrow> int list" where
  "cumsum_from acc [] = []"
| "cumsum_from acc (x # xs) = (acc + x) # cumsum_from (acc + x) xs"

definition new_track_idx :: "int list \<Rightarrow> int list" where
  "new_track_idx ids = map (\<lambda>c. c - 1) (cumsum_from 0 (map of_bool (ne_shift ids)))"

text \<open>\<open>new_data.set_index(mux)\<close>: level 0 is replaced, level 1 and the columns are kept.\<close>

definition reindex_data :: "point_rec list \<Rightarrow> point_rec list" where
  "reindex_data rows =
     map (\<lambda>(r, i). r\<lparr>track_idx := i\<rparr>) (zip rows (new_track_idx (map track_idx rows)))"

text \<open>
  \<open>pd.concat([self.cats, other.cats], sort=False).fillna(False)\<close>: \<open>None\<close> entries are
  dropped, the columns are those of the first table followed by the new ones of the
  second, and a flag a table does not have is \<open>False\<close>.
\<close>

definition widen_rows :: "cats_tbl \<Rightarrow> string list \<Rightarrow> (int \<times> bool list) list" where
  "widen_rows c cols =
     map (\<lambda>(i, fs). (i, map (\<lambda>l. l \<in> set (columns c) \<and> flag_at fs (col_index l (columns c))) cols))
         (cat_rows c)"

definition concat_cats :: "cats_tbl option \<Rightarrow> cats_tbl option \<Rightarrow> cats_tbl option" where
  "concat_cats a b =
     (case a of
        None \<Rightarrow> b
      | Some ca \<Rightarrow>
          (case b of
             None \<Rightarrow> Some ca
           | Some cb \<Rightarrow>
               (let cols = columns ca @ filter (\<lambda>l. l \<notin> set (columns ca)) (columns cb)
                in Some \<lparr> columns = cols, cat_rows = widen_rows ca cols @ widen_rows cb cols \<rparr>)))"

definition reindex_cats :: "cats_tbl \<Rightarrow> cats_tbl" where
  "reindex_cats c =
     c\<lparr> cat_rows := map (\<lambda>((i, fs), j). (j, fs))
                        (zip (cat_rows c) (new_track_idx (map fst (cat_rows c)))) \<rparr>"

definition show_bool :: "bool \<Rightarrow> string" where
  "show_bool b = (if b then ''True'' else ''False'')"

definition meta_msg :: "string \<Rightarrow> bool \<Rightarrow> bool \<Rightarrow> string" where
  "meta_msg attr a b = ''Categorisation metadata is different for '' @ [CHR 0x27] @ attr
      @ [CHR 0x27] @ '': '' @ show_bool a @ '' != '' @ show_bool b"

text \<open>
  Lines 324-326: every field of \<open>self.conf\<close> whose value differs from the other's is
  reset; reading a field the other settings object does not have raises, and the fields
  reset before that stay reset.
\<close>

fun adapt_fields :: "conf \<Rightarrow> conf \<Rightarrow> error option \<times> conf" where
  "adapt_fields [] oc = (None, [])"
| "adapt_fields ((f, v) # rest) oc =
     (case map_of oc f of
        None \<Rightarrow> (Some AttributeError, (f, v) # rest)
      | Some ov \<Rightarrow>
          (case adapt_fields rest oc of
             (e, rest') \<Rightarrow> (e, (f, if v \<noteq> ov then None else v) # rest')))"

text \<open>
  \<open>extend\<close> mutates the receiver. The model returns the receiver as it is when the call
  ends, together with the exception raised, if any. The steps follow lines 302-345.
\<close>

definition check_meta :: "trackrun \<Rightarrow> trackrun \<Rightarrow> error option \<times> trackrun" where
  "check_meta self other =
     (if size_tr self > 0 \<and> size_tr other > 0 then
        (if is_cat_inclusive self \<noteq> is_cat_inclusive other
         then (Some (ConcatenationError
                  (meta_msg ''is_cat_inclusive'' (is_cat_inclusive self) (is_cat_inclusive other))), self)
         else if is_categorised self \<noteq> is_categorised other
         then (Some (ConcatenationError
                  (meta_msg ''is_categorised'' (is_categorised self) (is_categorised other))), self)
         else (None, self))
      else if size_tr other > 0 then
        (None, self\<lparr> is_cat_inclusive := is_cat_inclusive other,
                     is_categorised := is_categorised other \<rparr>)
      else (None, self))"

definition check_tstep :: "trackrun \<Rightarrow> trackrun \<Rightarrow> error option \<times> trackrun" where
  "check_tstep self other =
     (case tstep_h self of
        None \<Rightarrow> (None, self\<lparr> tstep_h := tstep_h other \<rparr>)
      | Some a \<Rightarrow>
          (case tstep_h other of
             None \<Rightarrow> (None, self)
           | Some b \<Rightarrow>
               if a \<noteq> b
               then (Some (ConcatenationError
                       ''Extending by a TrackRun with different timestep is not allowed''), self)
               else (None, self)))"

definition adapt_conf_step :: "trackrun \<Rightarrow> trackrun \<Rightarrow> bool \<Rightarrow> error option \<times> trackrun" where
  "adapt_conf_step self other adapt_conf =
     (case conf other of
        Some oc \<Rightarrow>
          if adapt_conf then
            (case conf self of
               None \<Rightarrow> (None, self\<lparr> conf := Some oc \<rparr>)
             | Some sc \<Rightarrow> (case adapt_fields sc oc of (e, sc') \<Rightarrow> (e, self\<lparr> conf := Some sc' \<rparr>)))
          else (None, self)
      | None \<Rightarrow> (None, self))"

definition concat_step :: "trackrun \<Rightarrow> trackrun \<Rightarrow> trackrun" where
  "concat_step self other =
     (let s1 = self\<lparr> sources := sources self @ sources other \<rparr>;
          s2 = s1\<lparr> data := reindex_data (data s1 @ data other) \<rparr>
      in if cats s2 \<noteq> None \<or> cats other \<noteq> None
         then s2\<lparr> cats := map_option reindex_cats (concat_cats (cats s2) (cats other)) \<rparr>
         else s2)"

definition extend :: "trackrun \<Rightarrow> trackrun \<Rightarrow> bool \<Rightarrow> error option \<times> trackrun" where
  "extend self other adapt_conf =
     (case check_meta self other of
        (Some e, s) \<Rightarrow> (Some e, s)
      | (None, s) \<Rightarrow>
          (case check_tstep s other of
             (Some e, s') \<Rightarrow> (Some e, s')
           | (None, s') \<Rightarrow>
               (case adapt_conf_step s' other adapt_conf of
                  (Some e, s'') \<Rightarrow> (Some e, s'')
                | (None, s'') \<Rightarrow> (None, concat_step s'' other))))"

text \<open>\<open>__add__\<close>: a fresh TrackRun extended by both operands; neither operand changes.\<close>

definition add_tr :: "trackrun \<Rightarrow> trackrun \<Rightarrow> error + trackrun" where
  "add_tr self other =
     (case extend new_trackrun self True of
        (Some e, _) \<Rightarrow> Inl e
      | (None, n1) \<Rightarrow>
          (case extend n1 other True of
             (Some e, _) \<Rightarrow> Inl e
           | (None, n2) \<Rightarrow> Inr n2))"

section \<open>Track matching: \<open>match_tracks\<close>\<close>

text \<open>
  Modelled from the spec: \<open>OctantTrack.gb\<close> (\<open>octant/parts.py\<close> is missing), the grouping of
  the records by track id. A track collection maps each track id to its time-ordered
  records, and the candidate enumeration order is ascending track id: the groups are the
  distinct ids in ascending order, each with its rows in their order.
\<close>

definition gb :: "point_rec list \<Rightarrow> (int \<times> point_rec list) list" where
  "gb rows = map (\<lambda>k. (k, filter (\<lambda>r. track_idx r = k) rows))
                 (sort (remdups (map track_idx rows)))"






subsection \<open>Method "intersection" (lines 706-724)\<close>







subsection \<open>Method "simple" (lines 726-776)\<close>








subsection \<open>Method "bs2000" (lines 778-795)\<close>










subsection \<open>The whole of \<open>match_tracks\<close>\<close>


text \<open>
  The loop of lines 672-685, for \<open>match_tracks\<close> and \<open>density\<close> alike: one call per entry of
  \<open>cat_labels\<close>, stored in a dictionary under the label; the first call that raises ends
  the loop.
\<close>

fun collect_labels ::
  "(string \<Rightarrow> error + 'r) \<Rightarrow> string list \<Rightarrow> (string \<times> 'r) list \<Rightarrow> error + (string \<times> 'r) list" where
  "collect_labels f [] result = Inr result"
| "collect_labels f (subset_key # keys) result =
     (case f subset_key of
        Inl e \<Rightarrow> Inl e
      | Inr v \<Rightarrow> collect_labels f keys (AList.update subset_key v result))"


section \<open>Cyclone density: \<open>density\<close>\<close>

text \<open>
  The returned \<open>xarray.DataArray\<close>: the values, the name, the attributes \<open>units\<close>,
  \<open>subset\<close> and \<open>method\<close>, and the coordinates \<open>longitude\<close> and \<open>latitude\<close>; or, from
  the loop over the categories, a dictionary of such arrays.
\<close>

datatype density_result =
    Field "real list list" string string subset_arg string "real list" "real list"
  | FieldsByLabel "(string \<times> density_result) list"

definition np_diff :: "real list \<Rightarrow> real list" where
  "np_diff xs = map (\<lambda>(a, b). b - a) (zip xs (tl xs))"

definition descends :: "real list \<Rightarrow> bool" where
  "descends xs = list_ex (\<lambda>d. d < 0) (np_diff xs)"

text \<open>
  Lines 921-922. The mesh has one row per latitude and one column per longitude:
  \<open>lon2d[0, :]\<close> is the longitude axis and raises IndexError without a row, and
  \<open>lat2d[:, 0]\<close> is the latitude axis and raises IndexError without a column.
\<close>

definition check_grid :: "real list \<Rightarrow> real list \<Rightarrow> error option" where
  "check_grid lon_b lat_b =
     (if lat_b = [] then Some IndexError
      else if descends lon_b then Some (GridError ''Grid values must be in an ascending order'')
      else if lon_b = [] then Some IndexError
      else if descends lat_b then Some (GridError ''Grid values must be in an ascending order'')
      else None)"

text \<open>
  Lines 911-927: the kernel \<open>cy_func\<close> and \<open>units\<close>. The chain has no \<open>else\<close>: with
  another \<open>method\<close> both names stay unbound (\<open>None\<close> here).
\<close>

definition select_method ::
  "ext \<Rightarrow> string \<Rightarrow> string \<Rightarrow> real list \<Rightarrow> real list \<Rightarrow> real \<Rightarrow> real
     \<Rightarrow> error + (point_rec list \<Rightarrow> real list list) option \<times> string option" where
  "select_method X method by lon_b lat_b dist_km r_planet =
     (if method = ''radius'' then
        Inr (Some (\<lambda>sub_data.
                     (if by = ''track'' then track_density_rad X else point_density_rad X)
                       lon_b lat_b sub_data (dist_km * KM2M X) r_planet),
             Some (area_units X dist_km))
      else if method = ''cell'' then
        (case check_grid lon_b lat_b of
           Some e \<Rightarrow> Inl e
         | None \<Rightarrow>
             Inr (Some ((if by = ''track'' then track_density_cell X else point_density_cell X)
                          lon_b lat_b),
                  Some ''1''))
      else Inr (None, None))"

text \<open>Lines 930-944: the rows handed to the kernel.\<close>

definition select_data ::
  "ext \<Rightarrow> string \<Rightarrow> point_rec list \<Rightarrow> int \<times> int \<Rightarrow> int \<times> int \<Rightarrow> error + point_rec list" where
  "select_data X by sub_df exclude_first exclude_last =
     (if by = ''point'' then Inr sub_df
      else if by = ''track'' then Inr sub_df
      else if by = ''genesis'' then genesis_rows X sub_df exclude_first
      else if by = ''lysis'' then lysis_rows X sub_df exclude_last
      else Inl (ArgumentError ([CHR 0x60] @ ''by'' @ [CHR 0x60]
                               @ '' should be one of point|track|genesis|lysis'')))"

text \<open>
  Lines 948-952: division by the cell areas (positive numbers), element by element, and
  conversion to \<open>km-2\<close>; arrays of different shapes raise ValueError.
\<close>

definition weigh :: "ext \<Rightarrow> real list list \<Rightarrow> real list list \<Rightarrow> error + real list list" where
  "weigh X vals area =
     (if map length vals = map length area
      then Inr (map (\<lambda>(ds, as). map (\<lambda>(d, a). d / a * (KM2M X * KM2M X)) (zip ds as))
                    (zip vals area))
      else Inl ValueError)"

text \<open>Lines 882-962, entered with a subset that is not \<open>None\<close>.\<close>

definition density_body ::
  "ext \<Rightarrow> trackrun \<Rightarrow> real list \<Rightarrow> real list \<Rightarrow> string \<Rightarrow> subset_arg \<Rightarrow> string \<Rightarrow> real
     \<Rightarrow> int \<times> int \<Rightarrow> int \<times> int \<Rightarrow> bool \<Rightarrow> bool \<Rightarrow> real \<Rightarrow> error + density_result" where
  "density_body X tr lon1d lat1d by sb method dist_km exclude_first exclude_last grid_centres
       weight_by_area r_planet =
     (let lon_b = (if grid_centres then cell_bounds X lon1d else lon1d);
          lat_b = (if grid_centres then cell_bounds X lat1d else lat1d);
          xlon = (if grid_centres then lon1d else cell_centres X lon1d);
          xlat = (if grid_centres then lat1d else cell_centres X lat1d)
      in case getitem tr (Some sb) of
           Inl e \<Rightarrow> Inl e
         | Inr sub_df \<Rightarrow>
             (case select_method X method by lon_b lat_b dist_km r_planet of
                Inl e \<Rightarrow> Inl e
              | Inr (cy_func, units) \<Rightarrow>
                  (case select_data X by sub_df exclude_first exclude_last of
                     Inl e \<Rightarrow> Inl e
                   | Inr sub_data \<Rightarrow>
                       (case cy_func of
                          None \<Rightarrow> Inl UnboundLocalError
                        | Some cy \<Rightarrow>
                            if weight_by_area then
                              (case weigh X (cy sub_data)
                                      (grid_cell_areas X xlon xlat r_planet) of
                                 Inl e \<Rightarrow> Inl e
                               | Inr weighted \<Rightarrow>
                                   Inr (Field weighted (by @ ''_density'') ''km-2'' sb method
                                          xlon xlat))
                            else
                              (case units of
                                 None \<Rightarrow> Inl UnboundLocalError
                               | Some u \<Rightarrow>
                                   Inr (Field (cy sub_data) (by @ ''_density'') u sb method
                                          xlon xlat))))))"

function density ::
  "ext \<Rightarrow> trackrun \<Rightarrow> real list \<Rightarrow> real list \<Rightarrow> string \<Rightarrow> subset_arg option \<Rightarrow> string
     \<Rightarrow> real \<Rightarrow> int \<times> int \<Rightarrow> int \<times> int \<Rightarrow> bool \<Rightarrow> bool \<Rightarrow> real \<Rightarrow> error + density_result" where
  "density X tr lon1d lat1d by None method dist_km ef el gc wa rp =
     (if is_categorised tr then
        (case collect_labels
                (\<lambda>subset_key. density X tr lon1d lat1d by (Some (SStr subset_key)) method dist_km
                                 ef el gc wa rp)
                (cat_labels tr) [] of
           Inl e \<Rightarrow> Inl e
         | Inr result \<Rightarrow> Inr (FieldsByLabel result))
      else density_body X tr lon1d lat1d by (SStr ''all'') method dist_km ef el gc wa rp)"
| "density X tr lon1d lat1d by (Some sb) method dist_km ef el gc wa rp =
     density_body X tr lon1d lat1d by sb method dist_km ef el gc wa rp"
  by pat_completeness auto
termination
  by (relation "measure (\<lambda>(X, tr, lon1d, lat1d, by, sb, rest). case sb of None \<Rightarrow> 1 | Some _ \<Rightarrow> 0)")
     auto

section \<open>Example inputs\<close>

text \<open>Concrete collections on which the theorems below are instantiated.\<close>

definition row :: "int \<Rightarrow> int \<Rightarrow> int \<Rightarrow> point_rec" where
  "row k i t = \<lparr> track_idx = k, row_idx = i, time = t, lon = 0, lat = 0 \<rparr>"

definition tr_of :: "point_rec list \<Rightarrow> real option \<Rightarrow> trackrun" where
  "tr_of rows ts = new_trackrun \<lparr> data := rows, tstep_h := ts \<rparr>"

definition exA :: trackrun where
  "exA = tr_of [row 5 0 0, row 5 1 6, row 7 0 0] (Some 6)"

definition exB :: trackrun where
  "exB = tr_of [row 5 0 12, row 9 0 0] (Some 6)"

definition exC :: trackrun where
  "exC = tr_of [row 0 0 0, row 0 1 3] (Some 3)"

text \<open>
  A collection of one track with id 0, and a zero-based collection of two tracks.
\<close>

definition exS :: trackrun where
  "exS = tr_of [row 0 0 0, row 0 1 6] (Some 6)"

definition exT :: trackrun where
  "exT = tr_of [row 0 0 0, row 0 1 6, row 1 0 0] (Some 6)"


text \<open>
  Stand-ins for the imported functions, used by the examples only (the theorems hold for
  every choice). Timestamps are counted in hours. \<open>ex_great_circle\<close> is zero for equal
  positions and grows with the separation in degrees; \<open>lin_interp\<close> is linear
  interpolation of the first track at the timestamps of the second, without a value before
  the first track starts and with its last position after it ends; \<open>ex_metric\<close> compares
  the first positions; the cell kernels count the rows, or the distinct track ids, in each
  cell.
\<close>

definition ex_great_circle :: "real \<Rightarrow> real \<Rightarrow> real \<Rightarrow> real \<Rightarrow> real \<Rightarrow> real" where
  "ex_great_circle lon1 lon2 lat1 lat2 r = r * (\<bar>lon1 - lon2\<bar> + \<bar>lat1 - lat2\<bar>) / 60"

fun interp_at :: "point_rec list \<Rightarrow> int \<Rightarrow> (real \<times> real) option" where
  "interp_at [] t = None"
| "interp_at [a] t = (if time a \<le> t then Some (lon a, lat a) else None)"
| "interp_at (a # b # rest) t =
     (if t < time a then None
      else if t < time b then
        Some (lon a + (lon b - lon a) * real_of_int (t - time a) / real_of_int (time b - time a),
              lat a + (lat b - lat a) * real_of_int (t - time a) / real_of_int (time b - time a))
      else interp_at (b # rest) t)"

definition lin_interp :: "point_rec list \<Rightarrow> point_rec list \<Rightarrow> (real \<times> real) list" where
  "lin_interp df1 df2 = List.map_filter (\<lambda>r. interp_at df1 (time r)) df2"

definition ex_metric :: "point_rec list \<Rightarrow> point_rec list \<Rightarrow> real \<Rightarrow> real \<Rightarrow> real" where
  "ex_metric a b beta r = \<bar>lon (hd a) - lon (hd b)\<bar> + \<bar>lat (hd a) - lat (hd b)\<bar>"

definition in_cell :: "real \<times> real \<Rightarrow> real \<times> real \<Rightarrow> point_rec \<Rightarrow> bool" where
  "in_cell xs ys r = (fst xs \<le> lon r \<and> lon r < snd xs \<and> fst ys \<le> lat r \<and> lat r < snd ys)"

definition ex_point_cell :: "real list \<Rightarrow> real list \<Rightarrow> point_rec list \<Rightarrow> real list list" where
  "ex_point_cell lon_b lat_b rows =
     map (\<lambda>ys. map (\<lambda>xs. real (length (filter (in_cell xs ys) rows))) (zip lon_b (tl lon_b)))
         (zip lat_b (tl lat_b))"

definition ex_track_cell :: "real list \<Rightarrow> real list \<Rightarrow> point_rec list \<Rightarrow> real list list" where
  "ex_track_cell lon_b lat_b rows =
     map (\<lambda>ys. map (\<lambda>xs. real (length (remdups (map track_idx (filter (in_cell xs ys) rows)))))
                    (zip lon_b (tl lon_b)))
         (zip lat_b (tl lat_b))"

definition ex_centres :: "real list \<Rightarrow> real list" where
  "ex_centres xs = map (\<lambda>(a, b). (a + b) / 2) (zip xs (tl xs))"

definition ex_bounds :: "real list \<Rightarrow> real list" where
  "ex_bounds xs =
     (if length xs < 2 then xs
      else (3 * xs ! 0 - xs ! 1) / 2 # ex_centres xs
           @ [(3 * last xs - xs ! (length xs - 2)) / 2])"

definition exX :: ext where
  "exX = \<lparr> great_circle = ex_great_circle,
           distance_metric = ex_metric,
           interp_onto = lin_interp,
           HOUR = 1,
           KM2M = 1000,
           FILLVAL = 9 * 10 ^ 20,
           cell_bounds = ex_bounds,
           cell_centres = ex_centres,
           grid_cell_areas = (\<lambda>xlon xlat r. map (\<lambda>y. map (\<lambda>x. 1) xlon) xlat),
           point_density_cell = ex_point_cell,
           track_density_cell = ex_track_cell,
           point_density_rad = (\<lambda>lon_b lat_b rows d r. ex_point_cell lon_b lat_b rows),
           track_density_rad = (\<lambda>lon_b lat_b rows d r. ex_track_cell lon_b lat_b rows),
           genesis_rows = (\<lambda>rows md. Inr (filter (\<lambda>r. row_idx r = 0) rows)),
           lysis_rows = (\<lambda>rows md. Inr (map (\<lambda>g. last (snd g)) (gb rows))),
           area_units = (\<lambda>d. ''per circle'') \<rparr>"

section \<open>Properties\<close>

subsection \<open>Re-indexing of track ids\<close>

lemma length_cumsum_from: "length (cumsum_from a xs) = length xs"
  by (induction xs arbitrary: a) auto

lemma length_ne_shift: "length (ne_shift xs) = length xs"
  by (cases xs) (auto simp: ne_shift_def)

lemma length_new_track_idx: "length (new_track_idx ids) = length ids"
  by (simp add: new_track_idx_def length_cumsum_from length_ne_shift)

lemma set_cumsum_from:
  "\<forall>x \<in> set fs. x = 0 \<or> x = 1 \<Longrightarrow> insert a (set (cumsum_from a fs)) = {a .. a + sum_list fs}"
proof (induction fs arbitrary: a)
  case Nil
  then show ?case by simp
next
  case (Cons x xs)
  have ih: "insert (a + x) (set (cumsum_from (a + x) xs)) = {a + x .. a + x + sum_list xs}"
    using Cons.prems by (intro Cons.IH) simp
  have nn: "0 \<le> sum_list xs" using Cons.prems by (intro sum_list_nonneg) auto
  have x01: "x = 0 \<or> x = 1" using Cons.prems by simp
  have "insert a (set (cumsum_from a (x # xs)))
      = insert a (insert (a + x) (set (cumsum_from (a + x) xs)))" by simp
  also have "\<dots> = insert a {a + x .. a + x + sum_list xs}" by (simp only: ih)
  also have "\<dots> = {a .. a + sum_list (x # xs)}"
  proof (rule set_eqI)
    fix y
    show "y \<in> insert a {a + x .. a + x + sum_list xs} \<longleftrightarrow> y \<in> {a .. a + sum_list (x # xs)}"
      using x01 nn by (simp only: insert_iff atLeastAtMost_iff sum_list.Cons) linarith
  qed
  finally show ?case .
qed

lemma set_new_track_idx: "\<exists>n. set (new_track_idx ids) = {0 ..< int n}"
proof (cases ids)
  case Nil
  then have "set (new_track_idx ids) = {0 ..< int 0}" by (simp add: new_track_idx_def ne_shift_def)
  then show ?thesis by blast
next
  case (Cons x rest)
  define fs :: "int list" where "fs = map of_bool (map (\<lambda>(a, b). a \<noteq> b) (zip rest ids))"
  have fs01: "\<forall>x \<in> set fs. x = 0 \<or> x = 1" by (auto simp: fs_def)
  have nn: "0 \<le> sum_list fs" using fs01 by (intro sum_list_nonneg) auto
  have c: "cumsum_from 0 (map of_bool (ne_shift ids)) = 1 # cumsum_from 1 fs"
    using Cons by (simp add: ne_shift_def fs_def)
  have i: "insert 1 (set (cumsum_from 1 fs)) = {1 .. 1 + sum_list fs}"
    using set_cumsum_from [OF fs01] .
  have "set (new_track_idx ids) = (\<lambda>c. c - 1) ` insert 1 (set (cumsum_from 1 fs))"
    unfolding new_track_idx_def c by simp
  also have "\<dots> = (\<lambda>c. c - 1) ` {1 .. 1 + sum_list fs}"
    unfolding i ..
  also have "\<dots> = {0 ..< int (nat (1 + sum_list fs))}"
  proof (rule set_eqI)
    fix y :: int
    have "y \<in> (\<lambda>c. c - 1) ` {1 .. 1 + sum_list fs} \<longleftrightarrow> y + 1 \<in> {1 .. 1 + sum_list fs}"
    proof
      assume "y \<in> (\<lambda>c. c - 1) ` {1 .. 1 + sum_list fs}"
      then obtain c where "c \<in> {1 .. 1 + sum_list fs}" "y = c - 1" by blast
      then show "y + 1 \<in> {1 .. 1 + sum_list fs}" by simp
    next
      assume "y + 1 \<in> {1 .. 1 + sum_list fs}"
      then show "y \<in> (\<lambda>c. c - 1) ` {1 .. 1 + sum_list fs}"
        by (intro image_eqI [where x = "y + 1"]) simp_all
    qed
    also have "\<dots> \<longleftrightarrow> y \<in> {0 ..< int (nat (1 + sum_list fs))}"
      using nn by auto
    finally show "y \<in> (\<lambda>c. c - 1) ` {1 .. 1 + sum_list fs} \<longleftrightarrow> y \<in> {0 ..< int (nat (1 + sum_list fs))}" .
  qed
  finally show ?thesis by blast
qed

lemma set_new_track_idx_card:
  "set (new_track_idx ids) = {0 ..< int (length (remdups (new_track_idx ids)))}"
proof -
  obtain n where n: "set (new_track_idx ids) = {0 ..< int n}" using set_new_track_idx by blast
  have "length (remdups (new_track_idx ids)) = card (set (new_track_idx ids))"
    by (simp add: length_remdups_card_conv)
  also have "\<dots> = n" by (simp add: n)
  finally show ?thesis using n by simp
qed

lemma track_idx_reindex_data: "map track_idx (reindex_data rows) = new_track_idx (map track_idx rows)"
proof -
  have "length (new_track_idx (map track_idx rows)) = length rows"
    by (simp add: length_new_track_idx)
  then show ?thesis unfolding reindex_data_def
    by (intro nth_equalityI) auto
qed

lemma payload_reindex_data:
  "map (\<lambda>r. r\<lparr>track_idx := 0\<rparr>) (reindex_data rows) = map (\<lambda>r. r\<lparr>track_idx := 0\<rparr>) rows"
proof -
  have "length (new_track_idx (map track_idx rows)) = length rows"
    by (simp add: length_new_track_idx)
  then show ?thesis unfolding reindex_data_def
    by (intro nth_equalityI) auto
qed

lemma cumsum_from_nth:
  "Suc i < length xs \<Longrightarrow> cumsum_from a xs ! Suc i = cumsum_from a xs ! i + xs ! Suc i"
proof (induction xs arbitrary: a i)
  case Nil then show ?case by simp
next
  case (Cons x xs)
  show ?case
  proof (cases i)
    case 0
    with Cons.prems show ?thesis by (cases xs) auto
  next
    case (Suc j)
    with Cons show ?thesis by simp
  qed
qed

lemma new_track_idx_step:
  assumes "Suc i < length ids"
  shows "new_track_idx ids ! Suc i = new_track_idx ids ! i + of_bool (ids ! Suc i \<noteq> ids ! i)"
proof -
  let ?fs = "map of_bool (ne_shift ids) :: int list"
  have l: "length ?fs = length ids" by (simp add: length_ne_shift)
  have "ne_shift ids ! Suc i = (ids ! Suc i \<noteq> ids ! i)"
    using assms by (cases ids) (auto simp: ne_shift_def)
  then have "?fs ! Suc i = of_bool (ids ! Suc i \<noteq> ids ! i)"
    using assms by (simp add: length_ne_shift)
  moreover have "cumsum_from 0 ?fs ! Suc i = cumsum_from 0 ?fs ! i + ?fs ! Suc i"
    using assms l by (intro cumsum_from_nth) simp
  ultimately show ?thesis using assms
    by (simp add: new_track_idx_def length_cumsum_from length_ne_shift)
qed

lemma new_track_idx_hd: "ids \<noteq> [] \<Longrightarrow> new_track_idx ids ! 0 = 0"
  by (cases ids) (auto simp: new_track_idx_def ne_shift_def)

subsection \<open>\<open>extend\<close> and \<open>__add__\<close>\<close>

lemma sorted_new_track_idx: "sorted (new_track_idx ids)"
  unfolding sorted_iff_nth_Suc
  by (auto simp: length_new_track_idx new_track_idx_step)

lemma check_meta_data: "check_meta self other = (e, s) \<Longrightarrow> data s = data self \<and> cats s = cats self"
  by (auto simp: check_meta_def split: if_splits)

lemma check_tstep_data: "check_tstep self other = (e, s) \<Longrightarrow> data s = data self \<and> cats s = cats self"
  by (auto simp: check_tstep_def split: option.splits if_splits)

lemma adapt_conf_step_data:
  "adapt_conf_step self other ac = (e, s) \<Longrightarrow> data s = data self \<and> cats s = cats self"
  by (auto simp: adapt_conf_step_def split: option.splits if_splits prod.splits)

lemma concat_step_data: "data (concat_step self other) = reindex_data (data self @ data other)"
  by (simp add: concat_step_def Let_def)

lemma extend_error_unchanged:
  assumes "extend self other ac = (Some e, s')"
  shows "data s' = data self \<and> cats s' = cats self"
proof -
  obtain e1 s1 where m: "check_meta self other = (e1, s1)" by (cases "check_meta self other")
  obtain e2 s2 where t: "check_tstep s1 other = (e2, s2)" by (cases "check_tstep s1 other")
  obtain e3 s3 where c: "adapt_conf_step s2 other ac = (e3, s3)"
    by (cases "adapt_conf_step s2 other ac")
  note d1 = check_meta_data [OF m] and d2 = check_tstep_data [OF t]
    and d3 = adapt_conf_step_data [OF c]
  show ?thesis
  proof (cases e1)
    case (Some a)
    with assms m d1 show ?thesis by (simp add: extend_def)
  next
    case None
    note n1 = this
    show ?thesis
    proof (cases e2)
      case (Some a)
      with assms m t n1 d1 d2 show ?thesis by (simp add: extend_def)
    next
      case None
      note n2 = this
      show ?thesis
      proof (cases e3)
        case (Some a)
        with assms m t c n1 n2 d1 d2 d3 show ?thesis by (simp add: extend_def)
      next
        case None
        with assms m t c n1 n2 show ?thesis by (simp add: extend_def)
      qed
    qed
  qed
qed

lemma extend_ok_data:
  assumes "extend self other ac = (None, s')"
  shows "data s' = reindex_data (data self @ data other)"
proof -
  obtain e1 s1 where m: "check_meta self other = (e1, s1)" by (cases "check_meta self other")
  obtain e2 s2 where t: "check_tstep s1 other = (e2, s2)" by (cases "check_tstep s1 other")
  obtain e3 s3 where c: "adapt_conf_step s2 other ac = (e3, s3)"
    by (cases "adapt_conf_step s2 other ac")
  note d1 = check_meta_data [OF m] and d2 = check_tstep_data [OF t]
    and d3 = adapt_conf_step_data [OF c]
  from assms m t c have "e1 = None \<and> e2 = None \<and> e3 = None \<and> s' = concat_step s3 other"
    by (cases e1; cases e2; cases e3) (simp_all add: extend_def)
  with d1 d2 d3 show ?thesis by (simp add: concat_step_data)
qed

lemma reindexed_contiguous:
  "set (map track_idx (reindex_data rows)) = {0 ..< int (nunique (reindex_data rows))}"
  unfolding nunique_def track_idx_reindex_data by (rule set_new_track_idx_card)

lemmas extend_eval = extend_def check_meta_def check_tstep_def adapt_conf_step_def concat_step_def
  size_tr_def getitem_def nunique_def len_tr_def new_trackrun_def reindex_data_def
  new_track_idx_def ne_shift_def concat_cats_def tr_of_def row_def add_tr_def Let_def
  exA_def exB_def exC_def

text \<open>
  What a successful \<open>extend\<close> (or \<open>__add__\<close>, which extends a fresh TrackRun by both
  operands) does to the data: the rows are those of the receiver followed by those of the
  other TrackRun, unchanged and in their order apart from the track id; the new ids are
  exactly \<open>0, \<dots>, len - 1\<close>, starting at 0 and going up by one at each row whose old id
  differs from the old id of the row before it, and staying the same elsewhere.
\<close>

lemma extend_result_ids:
  "(extend self other ac = (None, s') \<longrightarrow>
      set (map track_idx (data s')) = {0 ..< int (len_tr s')}
      \<and> sorted (map track_idx (data s'))
      \<and> map (track_idx_update (\<lambda>_. 0)) (data s')
          = map (track_idx_update (\<lambda>_. 0)) (data self @ data other))
   \<and> (add_tr self other = Inr n \<longrightarrow>
      set (map track_idx (data n)) = {0 ..< int (len_tr n)}
      \<and> sorted (map track_idx (data n))
      \<and> map (track_idx_update (\<lambda>_. 0)) (data n)
          = map (track_idx_update (\<lambda>_. 0)) (data self @ data other))"
proof (intro conjI impI)
  assume a: "extend self other ac = (None, s')"
  note d = extend_ok_data [OF a]
  show "set (map track_idx (data s')) = {0 ..< int (len_tr s')}"
    unfolding len_tr_def d by (rule reindexed_contiguous)
  show "sorted (map track_idx (data s'))"
    unfolding d track_idx_reindex_data by (rule sorted_new_track_idx)
  show "map (track_idx_update (\<lambda>_. 0)) (data s')
          = map (track_idx_update (\<lambda>_. 0)) (data self @ data other)"
    unfolding d by (rule payload_reindex_data)
next
  assume a: "add_tr self other = Inr n"
  obtain n1 where e1: "extend new_trackrun self True = (None, n1)"
    and e2: "extend n1 other True = (None, n)"
    using a by (auto simp: add_tr_def split: prod.splits option.splits)
  have d1: "data n1 = reindex_data (data self)"
    using extend_ok_data [OF e1] by (simp add: new_trackrun_def)
  note d = extend_ok_data [OF e2]
  show "set (map track_idx (data n)) = {0 ..< int (len_tr n)}"
    unfolding len_tr_def d by (rule reindexed_contiguous)
  show "sorted (map track_idx (data n))"
    unfolding d track_idx_reindex_data by (rule sorted_new_track_idx)
  have "map (track_idx_update (\<lambda>_. 0)) (data n)
          = map (track_idx_update (\<lambda>_. 0)) (data n1 @ data other)"
    unfolding d by (rule payload_reindex_data)
  also have "\<dots> = map (track_idx_update (\<lambda>_. 0)) (data self @ data other)"
    by (simp add: d1 payload_reindex_data)
  finally show "map (track_idx_update (\<lambda>_. 0)) (data n)
          = map (track_idx_update (\<lambda>_. 0)) (data self @ data other)" .
qed

lemma extend_id_step:
  assumes "extend self other ac = (None, s')"
    and "Suc i < length (data self @ data other)"
  shows "track_idx (data s' ! Suc i)
           = track_idx (data s' ! i)
             + of_bool (track_idx ((data self @ data other) ! Suc i)
                        \<noteq> track_idx ((data self @ data other) ! i))"
proof -
  let ?rows = "data self @ data other"
  let ?ids = "map track_idx ?rows"
  have d: "data s' = reindex_data ?rows" by (rule extend_ok_data [OF assms(1)])
  have m: "map track_idx (data s') = new_track_idx ?ids"
    unfolding d by (rule track_idx_reindex_data)
  have l: "length (data s') = length ?rows"
    using arg_cong [OF m, of length] by (simp add: length_new_track_idx)
  have n: "track_idx (data s' ! j) = new_track_idx ?ids ! j" if "j < length ?rows" for j
    using that l nth_map [of j "data s'" track_idx] m by simp
  have "new_track_idx ?ids ! Suc i
          = new_track_idx ?ids ! i + of_bool (?ids ! Suc i \<noteq> ?ids ! i)"
    using assms(2) by (intro new_track_idx_step) simp
  moreover have "?ids ! Suc i = track_idx (?rows ! Suc i)" "?ids ! i = track_idx (?rows ! i)"
    using assms(2) by (simp_all only: nth_map Suc_lessD)
  ultimately show ?thesis using n [of i] n [of "Suc i"] assms(2) by simp
qed

text \<open>
  Claim C2. Combining two TrackRuns by \<open>extend\<close> or \<open>__add__\<close> should give contiguous
  zero-based track ids with every original track kept as it was. The re-indexing of lines
  330-331 starts a new id only where the old id changes between neighbouring rows, and it
  looks across the seam of the two tables as well. Extending the one-track collection
  \<open>exS\<close> (id 0, records at 0 h and 6 h) by \<open>exT\<close> (ids 0 and 1) succeeds and leaves two
  tracks, not three: the track of \<open>exS\<close> and the first track of \<open>exT\<close> come out as a single
  track 0 of four records, with the times 0, 6, 0, 6. In the same way \<open>exS + exS\<close> has one
  track.
\<close>

theorem extend_fuses_tracks_at_seam:
  "len_tr exS = 1 \<and> len_tr exT = 2
   \<and> fst (extend exS exT True) = None
   \<and> map track_idx (data (snd (extend exS exT True))) = [0, 0, 0, 0, 1]
   \<and> map time (data (snd (extend exS exT True))) = [0, 6, 0, 6, 0]
   \<and> len_tr (snd (extend exS exT True)) = 2
   \<and> isl (add_tr exS exS) = False
   \<and> map track_idx (data (projr (add_tr exS exS))) = [0, 0, 0, 0]
   \<and> len_tr (projr (add_tr exS exS)) = 1"
  by (simp add: extend_eval exS_def exT_def)

text \<open>
  Claim C10. When \<open>extend\<close> raises a ConcatenationError (different categorisation
  metadata of two non-empty TrackRuns, or different time steps), \<open>data\<close> and \<open>cats\<close>
  of the receiver are what they were before the call: both checks come before the
  concatenation and the re-indexing.
\<close>

theorem extend_error_keeps_data:
  "extend self other ac = (Some (ConcatenationError msg), s')
     \<Longrightarrow> data s' = data self \<and> cats s' = cats self"
  by (rule extend_error_unchanged)

theorem extend_error_keeps_data_witness:
  "fst (extend exA exC True)
     = Some (ConcatenationError ''Extending by a TrackRun with different timestep is not allowed'')
   \<and> data (snd (extend exA exC True)) = data exA
   \<and> cats (snd (extend exA exC True)) = cats exA"
proof -
  have h: "extend exA exC True
     = (Some (ConcatenationError ''Extending by a TrackRun with different timestep is not allowed''),
        snd (extend exA exC True))"
    by (simp add: extend_eval)
  from extend_error_keeps_data [OF h] h show ?thesis by (metis fst_conv)
qed

subsection \<open>Subset selection\<close>




lemma select_loop_unknown:
  "\<not> set labels \<subseteq> set (columns c) \<Longrightarrow> \<exists>msg. select_loop c labels sel = Inl (SelectError msg)"
  by (induction labels arbitrary: sel) auto






subsection \<open>Guards and argument checks of \<open>match_tracks\<close>\<close>
















subsection \<open>The grid check of \<open>density\<close>\<close>

lemma descends_iff: "descends xs \<longleftrightarrow> \<not> sorted xs"
proof (induction xs rule: induct_list012)
  case (3 x y zs)
  have "descends (x # y # zs) \<longleftrightarrow> y - x < 0 \<or> descends (y # zs)"
    by (simp add: descends_def np_diff_def)
  also have "\<dots> \<longleftrightarrow> \<not> (x \<le> y \<and> sorted (y # zs))"
    using 3(2) by auto
  also have "\<dots> \<longleftrightarrow> \<not> sorted (x # y # zs)"
    by (simp only: sorted2)
  finally show ?case .
qed (simp_all add: descends_def np_diff_def)

lemma check_grid_iff:
  assumes "lon_b \<noteq> []" and "lat_b \<noteq> []"
  shows "check_grid lon_b lat_b
           = (if sorted lon_b \<and> sorted lat_b then None
              else Some (GridError ''Grid values must be in an ascending order''))"
  using assms by (simp add: check_grid_def descends_iff)

lemma density_body_grid_error:
  assumes "getitem tr (Some sb) = Inr sel"
    and "check_grid (if gc then cell_bounds X lon1d else lon1d)
                    (if gc then cell_bounds X lat1d else lat1d) = Some e"
  shows "density_body X tr lon1d lat1d dby sb ''cell'' dk ef el gc wa rp = Inl e"
  using assms by (simp add: density_body_def select_method_def)

lemma density_body_point_cell:
  assumes "getitem tr (Some sb) = Inr sel"
    and "check_grid (if gc then cell_bounds X lon1d else lon1d)
                    (if gc then cell_bounds X lat1d else lat1d) = None"
  shows "density_body X tr lon1d lat1d ''point'' sb ''cell'' dk ef el gc False rp
           = Inr (Field (point_density_cell X (if gc then cell_bounds X lon1d else lon1d)
                           (if gc then cell_bounds X lat1d else lat1d) sel)
                    ''point_density'' ''1'' sb ''cell''
                    (if gc then lon1d else cell_centres X lon1d)
                    (if gc then lat1d else cell_centres X lat1d))"
  using assms by (simp add: density_body_def select_method_def select_data_def)


text \<open>
  Claim C7, as the code has it. With the method "cell" the boundaries of the grid (the
  arrays given, or \<open>cell_bounds\<close> of them when they are cell centres) must not step down:
  when the subset resolves and both boundary arrays are non-empty, a boundary array with a
  descending step in either dimension makes \<open>density\<close> raise the GridError, whatever
  \<open>by\<close> and the weighting are, and no field is computed; boundaries that never
  step down, equal neighbours included, pass the check, and the point density is the
  kernel's result on the grid as given.
\<close>

theorem cell_grid_check:
  "getitem tr (Some sb) = Inr sel
   \<and> lon_b = (if gc then cell_bounds X lon1d else lon1d)
   \<and> lat_b = (if gc then cell_bounds X lat1d else lat1d)
   \<and> lon_b \<noteq> [] \<and> lat_b \<noteq> []
   \<longrightarrow> (\<not> sorted lon_b \<or> \<not> sorted lat_b
          \<longrightarrow> density X tr lon1d lat1d dby (Some sb) ''cell'' dk ef el gc wa rp
                = Inl (GridError ''Grid values must be in an ascending order''))
       \<and> (sorted lon_b \<and> sorted lat_b
          \<longrightarrow> density X tr lon1d lat1d ''point'' (Some sb) ''cell'' dk ef el gc False rp
                = Inr (Field (point_density_cell X lon_b lat_b sel) ''point_density'' ''1'' sb
                         ''cell'' (if gc then lon1d else cell_centres X lon1d)
                         (if gc then lat1d else cell_centres X lat1d)))"
proof (intro impI conjI)
  assume h: "getitem tr (Some sb) = Inr sel
   \<and> lon_b = (if gc then cell_bounds X lon1d else lon1d)
   \<and> lat_b = (if gc then cell_bounds X lat1d else lat1d)
   \<and> lon_b \<noteq> [] \<and> lat_b \<noteq> []"
  then have lb': "lon_b = (if gc then cell_bounds X lon1d else lon1d)"
    and lt': "lat_b = (if gc then cell_bounds X lat1d else lat1d)"
    and ne: "lon_b \<noteq> []" "lat_b \<noteq> []"
    by blast+
  note lb = lb' [symmetric] and lt = lt' [symmetric]
  have g: "check_grid (if gc then cell_bounds X lon1d else lon1d)
                   (if gc then cell_bounds X lat1d else lat1d)
           = (if sorted lon_b \<and> sorted lat_b then None
              else Some (GridError ''Grid values must be in an ascending order''))"
    unfolding lb lt by (rule check_grid_iff [OF ne])
  {
    assume "\<not> sorted lon_b \<or> \<not> sorted lat_b"
    with g have "check_grid (if gc then cell_bounds X lon1d else lon1d)
                   (if gc then cell_bounds X lat1d else lat1d)
           = Some (GridError ''Grid values must be in an ascending order'')"
      by auto
    with h show "density X tr lon1d lat1d dby (Some sb) ''cell'' dk ef el gc wa rp
                = Inl (GridError ''Grid values must be in an ascending order'')"
      using density_body_grid_error [of tr sb sel gc X lon1d lat1d] by simp
  }
  {
    assume "sorted lon_b \<and> sorted lat_b"
    with g have "check_grid (if gc then cell_bounds X lon1d else lon1d)
                   (if gc then cell_bounds X lat1d else lat1d) = None"
      by simp
    with h show "density X tr lon1d lat1d ''point'' (Some sb) ''cell'' dk ef el gc False rp
                = Inr (Field (point_density_cell X lon_b lat_b sel) ''point_density'' ''1'' sb
                         ''cell'' (if gc then lon1d else cell_centres X lon1d)
                         (if gc then lat1d else cell_centres X lat1d))"
      using density_body_point_cell [of tr sb sel gc X lon1d lat1d] lb lt by simp
  }
qed

theorem cell_grid_check_witness:
  "density exX exA [2, 1, 3] [0, 1] ''track'' (Some (SStr ''all'')) ''cell'' 222 (10, 1) (4, 30)
       False True 6371000 = Inl (GridError ''Grid values must be in an ascending order'')
   \<and> density exX exA [0, 1, 2] [0, 1] ''point'' (Some (SStr ''all'')) ''cell'' 222 (10, 1)
       (4, 30) False False 6371000
     = Inr (Field (point_density_cell exX [0, 1, 2] [0, 1] (data exA)) ''point_density'' ''1''
              (SStr ''all'') ''cell'' (cell_centres exX [0, 1, 2]) (cell_centres exX [0, 1]))"
proof -
  have a: "getitem exA (Some (SStr ''all'')) = Inr (data exA)"
    by (simp add: getitem_def)
  have "density exX exA [2, 1, 3] [0, 1] ''track'' (Some (SStr ''all'')) ''cell'' 222 (10, 1)
       (4, 30) False True 6371000 = Inl (GridError ''Grid values must be in an ascending order'')"
    using cell_grid_check [where tr = exA and sb = "SStr ''all''" and sel = "data exA"
        and gc = False and lon1d = "[2, 1, 3]" and lat1d = "[0, 1]" and lon_b = "[2, 1, 3]"
        and lat_b = "[0, 1]" and X = exX and dby = "''track''" and dk = 222
        and ef = "(10, 1)" and el = "(4, 30)" and wa = True and rp = 6371000] a
    by simp
  moreover
  have "density exX exA [0, 1, 2] [0, 1] ''point'' (Some (SStr ''all'')) ''cell'' 222 (10, 1)
       (4, 30) False False 6371000
     = Inr (Field (point_density_cell exX [0, 1, 2] [0, 1] (data exA)) ''point_density'' ''1''
              (SStr ''all'') ''cell'' (cell_centres exX [0, 1, 2]) (cell_centres exX [0, 1]))"
    using cell_grid_check [where tr = exA and sb = "SStr ''all''" and sel = "data exA"
        and gc = False and lon1d = "[0, 1, 2]" and lat1d = "[0, 1]" and lon_b = "[0, 1, 2]"
        and lat_b = "[0, 1]" and X = exX and dby = "''track''" and dk = 222
        and ef = "(10, 1)" and el = "(4, 30)" and wa = True and rp = 6371000] a
    by simp
  ultimately show ?thesis by simp
qed

theorem equal_boundaries_counterexample:
  "sorted_wrt (<) [0, 1, 1, 2 :: real] = False
   \<and> density exX exA [0, 1, 1, 2] [0, 1] ''point'' (Some (SStr ''all'')) ''cell'' 222 (10, 1)
       (4, 30) False False 6371000
     = Inr (Field [[3, 0, 0]] ''point_density'' ''1'' (SStr ''all'') ''cell'' [1 / 2, 1, 3 / 2]
              [1 / 2])"
  by (simp add: density_body_def select_method_def select_data_def check_grid_def descends_def
        np_diff_def getitem_def exX_def ex_point_cell_def ex_centres_def in_cell_def exA_def
        tr_of_def row_def new_trackrun_def)

end
